theory Spec2Isabelle
  imports Main "HOL-Library.Word"
begin

section \<open>The NewsBiasFHE contract: data model\<close>

text \<open>
  A shallow embedding of \<^verbatim>\<open>contracts/NewsBiasFHE.sol\<close>. Solidity value types are words
  of their width, storage mappings are total functions (an unset slot reads as the zero
  value of its type), a dynamic storage array is a list, and a transaction either returns
  the updated contract storage (\<open>Inr\<close>) or reverts (\<open>Inl\<close>), in which case the storage
  stays as it was.
\<close>

type_synonym uint32 = "32 word"
type_synonym uint256 = "256 word"
type_synonym address = "160 word"
type_synonym bytes = "8 word list"

text \<open>
  \<open>euint32\<close> is a handle of the FHE library: a 32-byte token that the contract stores and
  passes on, and never inspects. The zero handle is what an unset mapping slot holds.
\<close>

type_synonym euint32 = "256 word"

text \<open>
  The ways a call can revert. The contract's own \<^verbatim>\<open>require\<close> strings are
  \<open>Unauthorized\<close> ("Unauthorized analyst"), \<open>AlreadyAnalyzed\<close> ("Analysis already
  completed"), \<open>InvalidRequest\<close> ("Invalid request") and \<open>CategoryNotFound\<close> ("Category
  not found"). \<open>ArithmeticOverflow\<close> and \<open>IndexOutOfBounds\<close> are the compiler's panics
  0x11 and 0x32 of checked arithmetic and array access, \<open>MalformedPayload\<close> is a failing
  \<^verbatim>\<open>abi.decode\<close>, \<open>InvalidProof\<close> a failing \<^verbatim>\<open>FHE.checkSignatures\<close>, and
  \<open>DecryptionRequestRefused\<close> a revert inside \<^verbatim>\<open>FHE.requestDecryption\<close>. No statement
  of the contract produces \<open>NotFound\<close>; it is in the type so that properties about it can
  be stated.
\<close>

datatype error =
    Unauthorized
  | AlreadyAnalyzed
  | InvalidRequest
  | CategoryNotFound
  | NotFound
  | InvalidProof
  | MalformedPayload
  | ArithmeticOverflow
  | IndexOutOfBounds
  | DecryptionRequestRefused

record EncryptedArticle =
  articleId :: uint256
  encryptedContent :: euint32
  encryptedSentiment :: euint32
  encryptedKeywords :: euint32
  timestamp :: uint256

record BiasAnalysis =
  biasScore :: string
  comparisonResult :: string
  mediaOutlet :: string
  isAnalyzed :: bool

datatype event =
    ArticleSubmitted uint256 uint256
  | AnalysisRequested uint256
  | AnalysisCompleted uint256

text \<open>
  The storage of the contract, field by field as declared, and the log of emitted events
  (\<open>events\<close>, oldest first), which a revert discards together with the storage writes.
\<close>

record contract =
  articleCount :: uint256
  articles :: "uint256 \<Rightarrow> EncryptedArticle"
  analyses :: "uint256 \<Rightarrow> BiasAnalysis"
  encryptedBiasCount :: "string \<Rightarrow> euint32"
  biasCategoryList :: "string list"
  requestToArticleId :: "uint256 \<Rightarrow> uint256"
  authorizedAnalysts :: "address \<Rightarrow> bool"
  events :: "event list"

text \<open>
  What the contract imports and does not define: the operations of the FHE library on
  handles, signature verification of a decryption result, ABI decoding of the cleartext
  bytes, and the hash of a category label
  (\<^verbatim>\<open>bytes32ToUint(keccak256(abi.encodePacked(label)))\<close>). They are parameters of the
  model; theorems hold for every choice of them unless a hypothesis says otherwise.
  The operations on handles are taken to return a handle. Whether the library accepts
  a decryption request is not a parameter here but an input of each requesting call.
\<close>

record fhe =
  isInitialized :: "euint32 \<Rightarrow> bool"
  asEuint32 :: "uint32 \<Rightarrow> euint32"
  fhe_add :: "euint32 \<Rightarrow> euint32 \<Rightarrow> euint32"
  checkSignatures :: "uint256 \<Rightarrow> bytes \<Rightarrow> bytes \<Rightarrow> bool"
  decodeUint32Array :: "bytes \<Rightarrow> uint32 list option"
  decodeUint32 :: "bytes \<Rightarrow> uint32 option"
  keccak256 :: "string \<Rightarrow> uint256"

section \<open>Checked arithmetic and array access\<close>

text \<open>Solidity 0.8 arithmetic reverts with panic 0x11 when the result leaves the type.\<close>

definition checked_add :: "'a::len word \<Rightarrow> 'a word \<Rightarrow> error + 'a word" where
  "checked_add a b =
     (if unat a + unat b < 2 ^ LENGTH('a) then Inr (a + b) else Inl ArithmeticOverflow)"

definition checked_mul :: "'a::len word \<Rightarrow> 'a word \<Rightarrow> error + 'a word" where
  "checked_mul a b =
     (if unat a * unat b < 2 ^ LENGTH('a) then Inr (a * b) else Inl ArithmeticOverflow)"

definition checked_sub :: "'a::len word \<Rightarrow> 'a word \<Rightarrow> error + 'a word" where
  "checked_sub a b = (if b \<le> a then Inr (a - b) else Inl ArithmeticOverflow)"

text \<open>Reading a memory array past its length reverts with panic 0x32.\<close>

definition index :: "'a list \<Rightarrow> nat \<Rightarrow> error + 'a" where
  "index xs i = (if i < length xs then Inr (xs ! i) else Inl IndexOutOfBounds)"

section \<open>The bias analysis algorithms\<close>

text \<open>
  \<^verbatim>\<open>uint32 score = (contentScore * 2 + sentiment * 3) / 5;\<close> with every operation on
  \<^verbatim>\<open>uint32\<close>, then the three threshold tests in the order of the source.
\<close>

definition calculateBiasScore :: "uint32 \<Rightarrow> uint32 \<Rightarrow> error + string" where
  "calculateBiasScore contentScore sentiment =
     (case checked_mul contentScore 2 of Inl e \<Rightarrow> Inl e | Inr a \<Rightarrow>
     (case checked_mul sentiment 3 of Inl e \<Rightarrow> Inl e | Inr b \<Rightarrow>
     (case checked_add a b of Inl e \<Rightarrow> Inl e | Inr t \<Rightarrow>
        (let score = t div 5 in
         if score > 80 then Inr ''HighlyBiased''
         else if score > 60 then Inr ''ModeratelyBiased''
         else if score > 40 then Inr ''SlightlyBiased''
         else Inr ''Neutral''))))"

definition compareWithBaseline :: "uint32 \<Rightarrow> uint32 \<Rightarrow> error + string" where
  "compareWithBaseline contentScore sentiment =
     (let baseline = 50 in
      (case (if contentScore > baseline then checked_sub contentScore baseline
             else checked_sub baseline contentScore) of Inl e \<Rightarrow> Inl e | Inr contentDiff \<Rightarrow>
      (case (if sentiment > baseline then checked_sub sentiment baseline
             else checked_sub baseline sentiment) of Inl e \<Rightarrow> Inl e | Inr sentimentDiff \<Rightarrow>
        (if contentDiff > 30 \<or> sentimentDiff > 30 then Inr ''SignificantDeviation''
         else if contentDiff > 15 \<or> sentimentDiff > 15 then Inr ''ModerateDeviation''
         else Inr ''WithinNormalRange''))))"

definition identifyMediaOutlet :: "uint32 \<Rightarrow> string" where
  "identifyMediaOutlet keywords =
     (if keywords mod 5 = 0 then ''OutletA''
      else if keywords mod 5 = 1 then ''OutletB''
      else if keywords mod 5 = 2 then ''OutletC''
      else if keywords mod 5 = 3 then ''OutletD''
      else ''OutletE'')"

section \<open>The transactions\<close>

text \<open>The modifier \<^verbatim>\<open>onlyAnalyst\<close>: the body runs only for an authorized sender.\<close>

definition onlyAnalyst :: "address \<Rightarrow> contract \<Rightarrow> (error + 'a) \<Rightarrow> error + 'a" where
  "onlyAnalyst sender st body =
     (if authorizedAnalysts st sender then body else Inl Unauthorized)"

definition emptyArticle :: EncryptedArticle where
  "emptyArticle = \<lparr>articleId = 0, encryptedContent = 0, encryptedSentiment = 0,
     encryptedKeywords = 0, timestamp = 0\<rparr>"

definition emptyAnalysis :: BiasAnalysis where
  "emptyAnalysis = \<lparr>biasScore = [], comparisonResult = [], mediaOutlet = [],
     isAnalyzed = False\<rparr>"

text \<open>Deployment: all storage is zero, then the deployer is authorized.\<close>

definition constructor :: "address \<Rightarrow> contract" where
  "constructor sender =
     \<lparr>articleCount = 0, articles = (\<lambda>_. emptyArticle), analyses = (\<lambda>_. emptyAnalysis),
      encryptedBiasCount = (\<lambda>_. 0), biasCategoryList = [], requestToArticleId = (\<lambda>_. 0),
      authorizedAnalysts = (\<lambda>_. False)(sender := True), events = []\<rparr>"

definition authorizeAnalyst :: "address \<Rightarrow> address \<Rightarrow> contract \<Rightarrow> error + contract" where
  "authorizeAnalyst sender analyst st =
     onlyAnalyst sender st
       (Inr (st\<lparr>authorizedAnalysts := (authorizedAnalysts st)(analyst := True)\<rparr>))"

text \<open>\<open>now\<close> is \<^verbatim>\<open>block.timestamp\<close> of the transaction.\<close>

definition submitEncryptedArticle ::
  "address \<Rightarrow> uint256 \<Rightarrow> euint32 \<Rightarrow> euint32 \<Rightarrow> euint32 \<Rightarrow> contract \<Rightarrow> error + contract" where
  "submitEncryptedArticle sender now content sentiment keywords st =
     onlyAnalyst sender st
       (case checked_add (articleCount st) 1 of Inl e \<Rightarrow> Inl e | Inr newId \<Rightarrow>
          Inr (st\<lparr>articleCount := newId,
                  articles := (articles st)(newId :=
                    \<lparr>articleId = newId, encryptedContent = content,
                     encryptedSentiment = sentiment, encryptedKeywords = keywords,
                     timestamp = now\<rparr>),
                  analyses := (analyses st)(newId :=
                    \<lparr>biasScore = [], comparisonResult = [], mediaOutlet = [],
                     isAnalyzed = False\<rparr>),
                  events := events st @ [ArticleSubmitted newId now]\<rparr>))"

text \<open>
  \<open>answer\<close> is what \<^verbatim>\<open>FHE.requestDecryption\<close> does with the request of this call:
  \<open>None\<close> when the library reverts (it does when the contract holds no permission on
  one of the handles, the zero handles of an unset slot among them), \<open>Some reqId\<close> when
  it accepts the request and hands back the identifier \<open>reqId\<close>. The three ciphertext
  handles read from \<^verbatim>\<open>articles[articleId]\<close> go to the decryption service and leave no
  trace in the storage.
\<close>

definition requestBiasAnalysis ::
  "address \<Rightarrow> uint256 option \<Rightarrow> uint256 \<Rightarrow> contract \<Rightarrow> error + contract" where
  "requestBiasAnalysis sender answer aid st =
     onlyAnalyst sender st
       (if isAnalyzed (analyses st aid) then Inl AlreadyAnalyzed
        else (case answer of None \<Rightarrow> Inl DecryptionRequestRefused
          | Some reqId \<Rightarrow>
              Inr (st\<lparr>requestToArticleId := (requestToArticleId st)(reqId := aid),
                      events := events st @ [AnalysisRequested aid]\<rparr>)))"

text \<open>
  The callback of an article decryption. It has no modifier: \<open>sender\<close> is not consulted.
\<close>

definition analyzeBias ::
  "fhe \<Rightarrow> address \<Rightarrow> uint256 \<Rightarrow> bytes \<Rightarrow> bytes \<Rightarrow> contract \<Rightarrow> error + contract" where
  "analyzeBias env sender requestId cleartexts proof st =
     (let aid = requestToArticleId st requestId in
      if aid = 0 then Inl InvalidRequest
      else if isAnalyzed (analyses st aid) then Inl AlreadyAnalyzed
      else if \<not> checkSignatures env requestId cleartexts proof then Inl InvalidProof
      else (case decodeUint32Array env cleartexts of None \<Rightarrow> Inl MalformedPayload
        | Some results \<Rightarrow>
      (case index results 0 of Inl e \<Rightarrow> Inl e | Inr contentScore \<Rightarrow>
      (case index results 1 of Inl e \<Rightarrow> Inl e | Inr sentiment \<Rightarrow>
      (case index results 2 of Inl e \<Rightarrow> Inl e | Inr keywords \<Rightarrow>
      (case calculateBiasScore contentScore sentiment of Inl e \<Rightarrow> Inl e | Inr score \<Rightarrow>
      (case compareWithBaseline contentScore sentiment of Inl e \<Rightarrow> Inl e | Inr comparison \<Rightarrow>
        (let analysis = \<lparr>biasScore = score, comparisonResult = comparison,
               mediaOutlet = identifyMediaOutlet keywords, isAnalyzed = True\<rparr>;
             st1 = st\<lparr>analyses := (analyses st)(aid := analysis)\<rparr>;
             st2 = (if \<not> isInitialized env (encryptedBiasCount st1 score)
                    then st1\<lparr>encryptedBiasCount :=
                               (encryptedBiasCount st1)(score := asEuint32 env 0),
                             biasCategoryList := biasCategoryList st1 @ [score]\<rparr>
                    else st1);
             st3 = st2\<lparr>encryptedBiasCount := (encryptedBiasCount st2)(score :=
                         fhe_add env (encryptedBiasCount st2 score) (asEuint32 env 1))\<rparr>
         in Inr (st3\<lparr>events := events st3 @ [AnalysisCompleted aid]\<rparr>)))))))))"

definition getBiasAnalysis ::
  "contract \<Rightarrow> uint256 \<Rightarrow> error + (string \<times> string \<times> string \<times> bool)" where
  "getBiasAnalysis st aid =
     (let ba = analyses st aid
      in Inr (biasScore ba, comparisonResult ba, mediaOutlet ba, isAnalyzed ba))"

definition getEncryptedBiasCount :: "contract \<Rightarrow> string \<Rightarrow> error + euint32" where
  "getEncryptedBiasCount st biasCategory = Inr (encryptedBiasCount st biasCategory)"

definition requestBiasCountDecryption ::
  "fhe \<Rightarrow> address \<Rightarrow> uint256 option \<Rightarrow> string \<Rightarrow> contract \<Rightarrow> error + contract" where
  "requestBiasCountDecryption env sender answer biasCategory st =
     onlyAnalyst sender st
       (let count = encryptedBiasCount st biasCategory in
        if \<not> isInitialized env count then Inl CategoryNotFound
        else (case answer of None \<Rightarrow> Inl DecryptionRequestRefused
          | Some reqId \<Rightarrow>
              Inr (st\<lparr>requestToArticleId :=
                        (requestToArticleId st)(reqId := keccak256 env biasCategory)\<rparr>)))"

text \<open>The scan of \<^verbatim>\<open>biasCategoryList\<close> from index 0; running off the end reverts.\<close>

fun getBiasCategoryFromHash_from :: "fhe \<Rightarrow> string list \<Rightarrow> uint256 \<Rightarrow> error + string" where
  "getBiasCategoryFromHash_from env [] h = Inl CategoryNotFound"
| "getBiasCategoryFromHash_from env (c # cs) h =
     (if keccak256 env c = h then Inr c else getBiasCategoryFromHash_from env cs h)"

definition getBiasCategoryFromHash :: "fhe \<Rightarrow> contract \<Rightarrow> uint256 \<Rightarrow> error + string" where
  "getBiasCategoryFromHash env st h = getBiasCategoryFromHash_from env (biasCategoryList st) h"

text \<open>The callback of a counter decryption: guarded, and without any storage write.\<close>

definition decryptBiasCount ::
  "fhe \<Rightarrow> address \<Rightarrow> uint256 \<Rightarrow> bytes \<Rightarrow> bytes \<Rightarrow> contract \<Rightarrow> error + contract" where
  "decryptBiasCount env sender requestId cleartexts proof st =
     onlyAnalyst sender st
       (let biasCategoryHash = requestToArticleId st requestId in
        case getBiasCategoryFromHash env st biasCategoryHash of Inl e \<Rightarrow> Inl e
        | Inr biasCategory \<Rightarrow>
            (if \<not> checkSignatures env requestId cleartexts proof then Inl InvalidProof
             else (case decodeUint32 env cleartexts of None \<Rightarrow> Inl MalformedPayload
                   | Some count \<Rightarrow> Inr st)))"

section \<open>Sequences of transactions\<close>

text \<open>
  One external call with everything the outside world supplies to it: the sender, the
  block timestamp, and the answer of the decryption service to a request.
\<close>

datatype call =
    AuthorizeAnalyst address address
  | SubmitEncryptedArticle address uint256 euint32 euint32 euint32
  | RequestBiasAnalysis address "uint256 option" uint256
  | AnalyzeBias address uint256 bytes bytes
  | RequestBiasCountDecryption address "uint256 option" string
  | DecryptBiasCount address uint256 bytes bytes

fun dispatch :: "fhe \<Rightarrow> call \<Rightarrow> contract \<Rightarrow> error + contract" where
  "dispatch env (AuthorizeAnalyst sender analyst) st = authorizeAnalyst sender analyst st"
| "dispatch env (SubmitEncryptedArticle sender now c s k) st =
     submitEncryptedArticle sender now c s k st"
| "dispatch env (RequestBiasAnalysis sender answer aid) st =
     requestBiasAnalysis sender answer aid st"
| "dispatch env (AnalyzeBias sender requestId cleartexts proof) st =
     analyzeBias env sender requestId cleartexts proof st"
| "dispatch env (RequestBiasCountDecryption sender answer biasCategory) st =
     requestBiasCountDecryption env sender answer biasCategory st"
| "dispatch env (DecryptBiasCount sender requestId cleartexts proof) st =
     decryptBiasCount env sender requestId cleartexts proof st"

text \<open>A transaction that reverts leaves the storage and the log as they were.\<close>

definition transact :: "(contract \<Rightarrow> error + contract) \<Rightarrow> contract \<Rightarrow> error option \<times> contract" where
  "transact f st = (case f st of Inl e \<Rightarrow> (Some e, st) | Inr st' \<Rightarrow> (None, st'))"

fun run :: "fhe \<Rightarrow> call list \<Rightarrow> contract \<Rightarrow> contract" where
  "run env [] st = st"
| "run env (c # cs) st = run env cs (snd (transact (dispatch env c) st))"

text \<open>The request identifier that the decryption service hands back in a call, if any.\<close>

fun issued :: "call \<Rightarrow> uint256 option" where
  "issued (RequestBiasAnalysis sender answer aid) = answer"
| "issued (RequestBiasCountDecryption sender answer biasCategory) = answer"
| "issued c = None"

text \<open>The identifiers announced by the \<^verbatim>\<open>ArticleSubmitted\<close> events of a log, in order.\<close>

fun submitted_ids :: "event list \<Rightarrow> uint256 list" where
  "submitted_ids [] = []"
| "submitted_ids (ArticleSubmitted newId now # es) = newId # submitted_ids es"
| "submitted_ids (e # es) = submitted_ids es"

section \<open>The classification rules as the specification words them\<close>

text \<open>
  The specification states the two classifiers over unbounded numbers: the tier from
  \<open>score = (contentScore*2 + sentiment*3) / 5\<close> with truncating division, the deviation
  from the larger of the two distances to the baseline 50.
\<close>

definition classifyBiasTier :: "nat \<Rightarrow> nat \<Rightarrow> string" where
  "classifyBiasTier contentScore sentiment =
     (let score = (contentScore * 2 + sentiment * 3) div 5 in
      if score > 80 then ''HighlyBiased''
      else if score > 60 then ''ModeratelyBiased''
      else if score > 40 then ''SlightlyBiased''
      else ''Neutral'')"

definition classifyDeviation :: "int \<Rightarrow> int \<Rightarrow> string" where
  "classifyDeviation contentScore sentiment =
     (let baseline = 50;
          contentDiff = \<bar>contentScore - baseline\<bar>;
          sentimentDiff = \<bar>sentiment - baseline\<bar> in
      if max contentDiff sentimentDiff > 30 then ''SignificantDeviation''
      else if max contentDiff sentimentDiff > 15 then ''ModerateDeviation''
      else ''WithinNormalRange'')"

section \<open>A concrete deployment\<close>

text \<open>
  A stand-in for the external services, used to run the contract on concrete inputs: a
  live handle is an odd number \<open>2 * v + 1\<close> carrying the value \<open>v\<close>, a decryption proof is
  accepted when it is not empty, the cleartext bytes decode to one number per byte, and
  the hash of a label is its length.
\<close>

definition demo_fhe :: fhe where
  "demo_fhe =
     \<lparr>isInitialized = (\<lambda>h. h \<noteq> 0),
      asEuint32 = (\<lambda>v. 2 * ucast v + 1),
      fhe_add = (\<lambda>a b. 2 * (a div 2 + b div 2) + 1),
      checkSignatures = (\<lambda>requestId cleartexts proof. proof \<noteq> []),
      decodeUint32Array = (\<lambda>cleartexts. Some (map ucast cleartexts)),
      decodeUint32 = (\<lambda>cleartexts. case cleartexts of [b] \<Rightarrow> Some (ucast b) | _ \<Rightarrow> None),
      keccak256 = (\<lambda>label. of_nat (length label))\<rparr>"

text \<open>
  Account 1 deploys and submits one article at time 1000; \<open>requested\<close> is the storage
  after it has asked for the analysis of article 1 and the decryption service has
  accepted the request under identifier 7.
\<close>

definition submitted :: contract where
  "submitted = run demo_fhe [SubmitEncryptedArticle 1 1000 11 13 15] (constructor 1)"

definition requested :: contract where
  "requested = run demo_fhe [RequestBiasAnalysis 1 (Some 7) 1] submitted"

text \<open>
  \<open>analyzed\<close> is the storage after the callback for request 7 has been delivered, by
  account 9, with the decrypted features 90, 90 and 7.
\<close>

definition analyzed :: contract where
  "analyzed = run demo_fhe [AnalyzeBias 9 7 [90, 90, 7] [1]] requested"

section \<open>Arithmetic of the classifiers\<close>

lemma checked_mul_Inr:
  fixes a b :: "'a::len word"
  assumes "unat a * unat b < 2 ^ LENGTH('a)"
  shows "checked_mul a b = Inr (a * b) \<and> unat (a * b) = unat a * unat b"
  using assms by (simp add: checked_mul_def unat_word_ariths)

lemma checked_add_Inr:
  fixes a b :: "'a::len word"
  assumes "unat a + unat b < 2 ^ LENGTH('a)"
  shows "checked_add a b = Inr (a + b) \<and> unat (a + b) = unat a + unat b"
  using assms by (simp add: checked_add_def unat_word_ariths)

lemma checked_add_one:
  "checked_add (n :: 'a::len word) 1 = Inr m \<Longrightarrow> unat m = Suc (unat n)"
  by (auto simp: checked_add_def unat_word_ariths split: if_splits)

lemma calculateBiasScore_fits:
  assumes "unat c * 2 + unat s * 3 < 2 ^ 32"
  shows "calculateBiasScore c s = Inr (classifyBiasTier (unat c) (unat s))"
proof -
  have m1: "unat c * unat (2::uint32) < 2 ^ LENGTH(32)" using assms by simp
  have m2: "unat s * unat (3::uint32) < 2 ^ LENGTH(32)" using assms by simp
  note a = checked_mul_Inr [OF m1]
  note b = checked_mul_Inr [OF m2]
  have m3: "unat (c * 2) + unat (s * 3) < 2 ^ LENGTH(32)" using a b assms by simp
  note t = checked_add_Inr [OF m3]
  have u: "unat ((c * 2 + s * 3) div 5) = (unat c * 2 + unat s * 3) div 5"
    using a b t by (simp add: unat_div)
  show ?thesis
    using a b t u
    by (simp add: calculateBiasScore_def classifyBiasTier_def Let_def word_less_nat_alt)
qed

lemma calculateBiasScore_overflows:
  assumes "\<not> unat c * 2 + unat s * 3 < 2 ^ 32"
  shows "calculateBiasScore c s = Inl ArithmeticOverflow"
proof (cases "unat c * unat (2::uint32) < 2 ^ LENGTH(32)")
  case False
  then show ?thesis by (simp add: calculateBiasScore_def checked_mul_def)
next
  case m1: True
  show ?thesis
  proof (cases "unat s * unat (3::uint32) < 2 ^ LENGTH(32)")
    case False
    then show ?thesis using m1 by (simp add: calculateBiasScore_def checked_mul_def)
  next
    case m2: True
    note a = checked_mul_Inr [OF m1]
    note b = checked_mul_Inr [OF m2]
    have "\<not> unat (c * 2) + unat (s * 3) < 2 ^ LENGTH(32)" using a b assms by simp
    then show ?thesis using a b by (simp add: calculateBiasScore_def checked_add_def)
  qed
qed

lemma calculateBiasScore_not_Unauthorized: "calculateBiasScore c s \<noteq> Inl Unauthorized"
  by (cases "unat c * 2 + unat s * 3 < 2 ^ 32")
     (simp_all add: calculateBiasScore_fits calculateBiasScore_overflows)

lemma abs_diff_word:
  fixes c :: uint32
  shows "(if c > 50 then checked_sub c 50 else checked_sub 50 c)
           = Inr (if c > 50 then c - 50 else 50 - c)
         \<and> uint (if c > 50 then c - 50 else 50 - c) = \<bar>uint c - 50\<bar>"
proof (cases "c > 50")
  case True
  then have le: "50 \<le> c" by simp
  have "uint (c - 50) = uint c - uint (50 :: uint32)"
    using le by (simp add: uint_minus_simple_alt)
  moreover have "50 < uint c" using True by (simp add: word_less_def)
  ultimately show ?thesis using True le by (simp add: checked_sub_def)
next
  case False
  then have le: "c \<le> 50" by simp
  have "uint (50 - c) = uint (50 :: uint32) - uint c"
    using le by (simp add: uint_minus_simple_alt)
  moreover have "uint c \<le> 50" using le by (simp add: word_le_def)
  ultimately show ?thesis using False le by (simp add: checked_sub_def)
qed

lemma compareWithBaseline_eq:
  "compareWithBaseline c s = Inr (classifyDeviation (uint c) (uint s))"
proof -
  define cd where "cd = (if c > 50 then c - 50 else 50 - c)"
  define sd where "sd = (if s > 50 then s - 50 else 50 - s)"
  have c: "(if c > 50 then checked_sub c 50 else checked_sub 50 c) = Inr cd"
    "uint cd = \<bar>uint c - 50\<bar>"
    using abs_diff_word [of c] by (simp_all add: cd_def)
  have s: "(if s > 50 then checked_sub s 50 else checked_sub 50 s) = Inr sd"
    "uint sd = \<bar>uint s - 50\<bar>"
    using abs_diff_word [of s] by (simp_all add: sd_def)
  have t: "(cd > 30) = (uint cd > 30)" "(sd > 30) = (uint sd > 30)"
     "(cd > 15) = (uint cd > 15)" "(sd > 15) = (uint sd > 15)"
    by (simp_all add: word_less_def)
  show ?thesis
    unfolding compareWithBaseline_def classifyDeviation_def Let_def c s
    by (simp add: t c s less_max_iff_disj)
qed

section \<open>The classifiers\<close>

text \<open>
  Claim C5, as the specification states it, does not hold: for every pair of unsigned
  inputs the tier is the one determined by \<open>(contentScore*2 + sentiment*3) / 5\<close>. At
  \<open>contentScore = 2^31\<close>, \<open>sentiment = 0\<close> the rule gives the score 858993459 and the
  tier "HighlyBiased", while \<open>calculateBiasScore\<close> returns no tier at all: the product
  \<open>contentScore * 2\<close> leaves \<^verbatim>\<open>uint32\<close> and the call reverts.
\<close>

theorem calculateBiasScore_every_input_counterexample:
  "classifyBiasTier 2147483648 0 = ''HighlyBiased''
   \<and> calculateBiasScore 2147483648 0 = Inl ArithmeticOverflow
   \<and> calculateBiasScore 2147483648 0 \<noteq> Inr (classifyBiasTier 2147483648 0)"
  by (simp add: classifyBiasTier_def calculateBiasScore_def checked_mul_def)

text \<open>
  Claim C5, amended: for every pair of \<^verbatim>\<open>uint32\<close> inputs with
  \<open>contentScore*2 + sentiment*3 \<le> 2^32 - 1\<close>, \<open>calculateBiasScore\<close> returns the tier
  determined by \<open>score = (contentScore*2 + sentiment*3) / 5\<close> with truncating division
  and the strictly descending tests \<open>> 80\<close>, \<open>> 60\<close>, \<open>> 40\<close>; \<open>(100, 100)\<close> gives
  "HighlyBiased", a score of exactly 80 gives "ModeratelyBiased" and a score of exactly
  40 gives "Neutral".
\<close>

theorem calculateBiasScore_tier:
  "(unat contentScore * 2 + unat sentiment * 3 < 2 ^ 32 \<longrightarrow>
      calculateBiasScore contentScore sentiment
        = Inr (classifyBiasTier (unat contentScore) (unat sentiment)))
   \<and> calculateBiasScore 100 100 = Inr ''HighlyBiased''
   \<and> ((unat contentScore * 2 + unat sentiment * 3) div 5 = 80 \<longrightarrow>
        calculateBiasScore contentScore sentiment = Inr ''ModeratelyBiased'')
   \<and> ((unat contentScore * 2 + unat sentiment * 3) div 5 = 40 \<longrightarrow>
        calculateBiasScore contentScore sentiment = Inr ''Neutral'')"
proof (intro conjI impI)
  assume "unat contentScore * 2 + unat sentiment * 3 < 2 ^ 32"
  then show "calculateBiasScore contentScore sentiment
      = Inr (classifyBiasTier (unat contentScore) (unat sentiment))"
    by (rule calculateBiasScore_fits)
next
  have "unat (100::uint32) * 2 + unat (100::uint32) * 3 < 2 ^ 32" by simp
  from calculateBiasScore_fits [OF this]
  show "calculateBiasScore 100 100 = Inr ''HighlyBiased''"
    by (simp add: classifyBiasTier_def)
next
  assume e: "(unat contentScore * 2 + unat sentiment * 3) div 5 = 80"
  then have "unat contentScore * 2 + unat sentiment * 3 < 2 ^ 32" by simp
  from calculateBiasScore_fits [OF this] e
  show "calculateBiasScore contentScore sentiment = Inr ''ModeratelyBiased''"
    by (simp add: classifyBiasTier_def)
next
  assume e: "(unat contentScore * 2 + unat sentiment * 3) div 5 = 40"
  then have "unat contentScore * 2 + unat sentiment * 3 < 2 ^ 32" by simp
  from calculateBiasScore_fits [OF this] e
  show "calculateBiasScore contentScore sentiment = Inr ''Neutral''"
    by (simp add: classifyBiasTier_def)
qed

theorem calculateBiasScore_tier_witness:
  "unat (100::uint32) * 2 + unat (67::uint32) * 3 < 2 ^ 32
   \<and> (unat (100::uint32) * 2 + unat (67::uint32) * 3) div 5 = 80
   \<and> calculateBiasScore 100 67 = Inr ''ModeratelyBiased''
   \<and> (unat (50::uint32) * 2 + unat (34::uint32) * 3) div 5 = 40
   \<and> calculateBiasScore 50 34 = Inr ''Neutral''
   \<and> calculateBiasScore 70 50 = Inr ''SlightlyBiased''"
  using calculateBiasScore_tier [of 100 67] calculateBiasScore_tier [of 50 34]
    calculateBiasScore_tier [of 70 50]
  by (simp add: classifyBiasTier_def)

text \<open>
  Claim C6: for every pair of inputs, \<open>compareWithBaseline\<close> returns the label determined
  by the distances \<open>|contentScore - 50|\<close> and \<open>|sentiment - 50|\<close>: "SignificantDeviation"
  when the larger exceeds 30, "ModerateDeviation" when it exceeds 15 but not 30, and
  "WithinNormalRange" otherwise; \<open>(80, 50)\<close> gives "ModerateDeviation" and \<open>(81, 50)\<close>
  gives "SignificantDeviation". The guarded subtractions never revert.
\<close>

theorem compareWithBaseline_deviation:
  "compareWithBaseline contentScore sentiment
     = Inr (classifyDeviation (uint contentScore) (uint sentiment))
   \<and> compareWithBaseline 80 50 = Inr ''ModerateDeviation''
   \<and> compareWithBaseline 81 50 = Inr ''SignificantDeviation''"
  by (simp add: compareWithBaseline_eq classifyDeviation_def)

theorem compareWithBaseline_deviation_witness:
  "compareWithBaseline 20 65 = Inr ''ModerateDeviation''
   \<and> compareWithBaseline 4294967295 50 = Inr ''SignificantDeviation''
   \<and> compareWithBaseline 35 65 = Inr ''WithinNormalRange''"
  using compareWithBaseline_deviation [of 20 65]
    compareWithBaseline_deviation [of 4294967295 50]
    compareWithBaseline_deviation [of 35 65]
  by (simp add: classifyDeviation_def)

text \<open>
  Claim C10: \<open>calculateBiasScore\<close> computes in checked 32-bit unsigned arithmetic. It
  returns a label exactly when \<open>contentScore*2 + sentiment*3\<close> fits in 32 bits; when a
  product or the sum exceeds \<open>2^32 - 1\<close>, and so whenever \<open>contentScore \<ge> 2^31\<close>, the
  call aborts with the arithmetic-overflow panic and returns no label.
\<close>

theorem calculateBiasScore_checked_arithmetic:
  "((\<exists>label. calculateBiasScore contentScore sentiment = Inr label)
      = (unat contentScore * 2 + unat sentiment * 3 < 2 ^ 32))
   \<and> (2 ^ 32 \<le> unat contentScore * 2 \<or> 2 ^ 32 \<le> unat sentiment * 3
        \<or> 2 ^ 32 \<le> unat contentScore * 2 + unat sentiment * 3 \<longrightarrow>
      calculateBiasScore contentScore sentiment = Inl ArithmeticOverflow)
   \<and> (2 ^ 31 \<le> unat contentScore \<longrightarrow>
      calculateBiasScore contentScore sentiment = Inl ArithmeticOverflow)"
proof (intro conjI impI)
  show "(\<exists>label. calculateBiasScore contentScore sentiment = Inr label)
      = (unat contentScore * 2 + unat sentiment * 3 < 2 ^ 32)"
    by (cases "unat contentScore * 2 + unat sentiment * 3 < 2 ^ 32")
       (simp_all add: calculateBiasScore_fits calculateBiasScore_overflows)
next
  assume "2 ^ 32 \<le> unat contentScore * 2 \<or> 2 ^ 32 \<le> unat sentiment * 3
        \<or> 2 ^ 32 \<le> unat contentScore * 2 + unat sentiment * 3"
  then have "\<not> unat contentScore * 2 + unat sentiment * 3 < 2 ^ 32" by auto
  then show "calculateBiasScore contentScore sentiment = Inl ArithmeticOverflow"
    by (rule calculateBiasScore_overflows)
next
  assume "2 ^ 31 \<le> unat contentScore"
  then have "\<not> unat contentScore * 2 + unat sentiment * 3 < 2 ^ 32" by simp
  then show "calculateBiasScore contentScore sentiment = Inl ArithmeticOverflow"
    by (rule calculateBiasScore_overflows)
qed

theorem calculateBiasScore_checked_arithmetic_witness:
  "(2::nat) ^ 31 \<le> unat (2147483648::uint32)
   \<and> calculateBiasScore 2147483648 0 = Inl ArithmeticOverflow
   \<and> (2::nat) ^ 32 \<le> unat (1431655766::uint32) * 3
   \<and> calculateBiasScore 0 1431655766 = Inl ArithmeticOverflow
   \<and> unat (90::uint32) * 2 + unat (90::uint32) * 3 < 2 ^ 32
   \<and> (\<exists>label. calculateBiasScore 90 90 = Inr label)"
  using calculateBiasScore_checked_arithmetic [of 2147483648 0]
    calculateBiasScore_checked_arithmetic [of 0 1431655766]
    calculateBiasScore_checked_arithmetic [of 90 90]
  by simp

section \<open>The concrete deployment, evaluated\<close>



lemma submitted_eq:
  "submitted = (constructor 1)\<lparr>articleCount := 1,
      articles := (\<lambda>_. emptyArticle)(1 := \<lparr>articleId = 1, encryptedContent = 11,
         encryptedSentiment = 13, encryptedKeywords = 15, timestamp = 1000\<rparr>),
      analyses := (\<lambda>_. emptyAnalysis)(1 := emptyAnalysis),
      events := [ArticleSubmitted 1 1000]\<rparr>"
  by (simp add: submitted_def transact_def submitEncryptedArticle_def onlyAnalyst_def
      constructor_def checked_add_def emptyAnalysis_def)

lemma requested_eq:
  "requested = submitted\<lparr>requestToArticleId := (\<lambda>_. 0)(7 := 1),
      events := [ArticleSubmitted 1 1000, AnalysisRequested 1]\<rparr>"
  by (simp add: requested_def submitted_eq transact_def requestBiasAnalysis_def
      onlyAnalyst_def constructor_def emptyAnalysis_def)

lemma first_delivery:
  "analyzeBias demo_fhe 9 7 [90, 90, 7] [1] requested =
     Inr (requested\<lparr>
        analyses := (analyses requested)(1 := \<lparr>biasScore = ''HighlyBiased'',
          comparisonResult = ''SignificantDeviation'', mediaOutlet = ''OutletC'',
          isAnalyzed = True\<rparr>),
        encryptedBiasCount := (\<lambda>_. 0)(''HighlyBiased'' := 3),
        biasCategoryList := [''HighlyBiased''],
        events := [ArticleSubmitted 1 1000, AnalysisRequested 1, AnalysisCompleted 1]\<rparr>)"
  by (simp add: analyzeBias_def requested_eq submitted_eq constructor_def demo_fhe_def
      index_def calculateBiasScore_def compareWithBaseline_def identifyMediaOutlet_def
      checked_mul_def checked_add_def checked_sub_def emptyAnalysis_def Let_def)

lemma analyzed_eq:
  "analyzed = requested\<lparr>
        analyses := (analyses requested)(1 := \<lparr>biasScore = ''HighlyBiased'',
          comparisonResult = ''SignificantDeviation'', mediaOutlet = ''OutletC'',
          isAnalyzed = True\<rparr>),
        encryptedBiasCount := (\<lambda>_. 0)(''HighlyBiased'' := 3),
        biasCategoryList := [''HighlyBiased''],
        events := [ArticleSubmitted 1 1000, AnalysisRequested 1, AnalysisCompleted 1]\<rparr>"
  by (simp add: analyzed_def transact_def first_delivery)

lemma first_delivery_analyzed:
  "analyzeBias demo_fhe 9 7 [90, 90, 7] [1] requested = Inr analyzed"
  by (simp add: first_delivery analyzed_eq)

lemma run_append: "run env (cs @ cs') st = run env cs' (run env cs st)"
  by (induction cs arbitrary: st) simp_all

lemma analyzed_run:
  "analyzed = run demo_fhe [SubmitEncryptedArticle 1 1000 11 13 15,
       RequestBiasAnalysis 1 (Some 7) 1, AnalyzeBias 9 7 [90, 90, 7] [1]] (constructor 1)"
proof -
  have "run demo_fhe ([SubmitEncryptedArticle 1 1000 11 13 15] @ [RequestBiasAnalysis 1 (Some 7) 1]
          @ [AnalyzeBias 9 7 [90, 90, 7] [1]]) (constructor 1) = analyzed"
    unfolding run_append by (simp only: submitted_def [symmetric] requested_def [symmetric]
        analyzed_def [symmetric])
  then show ?thesis by simp
qed

section \<open>What a delivered callback does\<close>

lemma analyzeBias_Inr:
  assumes "analyzeBias env sender requestId cleartexts proof st = Inr st'"
  shows "requestToArticleId st requestId \<noteq> 0"
    and "\<not> isAnalyzed (analyses st (requestToArticleId st requestId))"
    and "requestToArticleId st' = requestToArticleId st"
    and "isAnalyzed (analyses st' (requestToArticleId st requestId))"
    and "articleCount st' = articleCount st"
    and "authorizedAnalysts st' = authorizedAnalysts st"
    and "articles st' = articles st"
    and "events st' = events st @ [AnalysisCompleted (requestToArticleId st requestId)]"
    and "\<And>i. i \<noteq> requestToArticleId st requestId \<Longrightarrow> analyses st' i = analyses st i"
  using assms
  by (auto simp: analyzeBias_def Let_def split: if_splits option.splits sum.splits)

lemma analyzeBias_analyzed:
  assumes "requestToArticleId st requestId \<noteq> 0"
    and "isAnalyzed (analyses st (requestToArticleId st requestId))"
  shows "analyzeBias env sender requestId cleartexts proof st = Inl AlreadyAnalyzed"
  using assms by (simp add: analyzeBias_def Let_def)

lemma index_not_Unauthorized: "index xs i \<noteq> Inl Unauthorized"
  by (simp add: index_def)

lemma analyzeBias_not_Unauthorized:
  "analyzeBias env sender requestId cleartexts proof st \<noteq> Inl Unauthorized"
  using calculateBiasScore_not_Unauthorized index_not_Unauthorized
  by (auto simp: analyzeBias_def Let_def compareWithBaseline_eq
      split: if_splits option.splits sum.splits)



section \<open>Invariants of the storage\<close>





lemma submitted_ids_append: "submitted_ids (xs @ ys) = submitted_ids xs @ submitted_ids ys"
  by (induction xs rule: submitted_ids.induct) simp_all

lemma dispatch_ids:
  assumes inv: "map unat (submitted_ids (events st)) = [1..<Suc (unat (articleCount st))]"
    and run: "dispatch env c st = Inr st'"
  shows "map unat (submitted_ids (events st')) = [1..<Suc (unat (articleCount st'))]"
proof (cases c)
  case (SubmitEncryptedArticle sender now c s k)
  with run obtain newId where n: "checked_add (articleCount st) 1 = Inr newId"
    and e: "events st' = events st @ [ArticleSubmitted newId now]"
    and a: "articleCount st' = newId"
    by (auto simp: submitEncryptedArticle_def onlyAnalyst_def split: if_splits sum.splits)
  from checked_add_one [OF n] have "unat newId = Suc (unat (articleCount st))" by simp
  then show ?thesis using inv e a by (simp add: submitted_ids_append)
next
  case (AnalyzeBias sender requestId cleartexts "proof")
  with run have "analyzeBias env sender requestId cleartexts proof st = Inr st'" by simp
  from analyzeBias_Inr(5,8) [OF this] show ?thesis
    using inv by (simp add: submitted_ids_append)
qed (use inv run in \<open>auto simp: authorizeAnalyst_def requestBiasAnalysis_def
        requestBiasCountDecryption_def decryptBiasCount_def onlyAnalyst_def Let_def
        submitted_ids_append
        split: if_splits option.splits sum.splits\<close>)

lemma dispatch_articles:
  assumes run: "dispatch env c st = Inr st'"
  shows "articleCount st \<le> articleCount st' \<and>
     (\<forall>i. i \<le> articleCount st \<longrightarrow> articles st' i = articles st i)"
proof (cases c)
  case (SubmitEncryptedArticle sender now c s k)
  with run obtain newId where n: "checked_add (articleCount st) 1 = Inr newId"
    and e: "articles st' = (articles st)(newId := \<lparr>articleId = newId, encryptedContent = c,
                     encryptedSentiment = s, encryptedKeywords = k, timestamp = now\<rparr>)"
    and a: "articleCount st' = newId"
    by (auto simp: submitEncryptedArticle_def onlyAnalyst_def split: if_splits sum.splits)
  from checked_add_one [OF n] have u: "unat newId = Suc (unat (articleCount st))" by simp
  then have "articleCount st < newId" by (simp add: word_less_nat_alt)
  then show ?thesis using e a by auto
next
  case (AnalyzeBias sender requestId cleartexts "proof")
  with run have "analyzeBias env sender requestId cleartexts proof st = Inr st'" by simp
  from analyzeBias_Inr(5,7) [OF this] show ?thesis by simp
qed (use run in \<open>auto simp: authorizeAnalyst_def requestBiasAnalysis_def
        requestBiasCountDecryption_def decryptBiasCount_def onlyAnalyst_def Let_def
        split: if_splits option.splits sum.splits\<close>)

lemma run_ids:
  "map unat (submitted_ids (events st)) = [1..<Suc (unat (articleCount st))] \<Longrightarrow>
   map unat (submitted_ids (events (run env cs st)))
     = [1..<Suc (unat (articleCount (run env cs st)))]"
proof (induction cs arbitrary: st)
  case Nil
  then show ?case by simp
next
  case (Cons c cs)
  show ?case
  proof (cases "dispatch env c st")
    case (Inl e)
    then show ?thesis using Cons.IH [OF Cons.prems] by (simp add: transact_def)
  next
    case (Inr st')
    from Cons.IH [OF dispatch_ids [OF Cons.prems Inr]] show ?thesis
      using Inr by (simp add: transact_def)
  qed
qed

lemma run_articles:
  "articleCount st \<le> articleCount (run env cs st) \<and>
     (\<forall>i. i \<le> articleCount st \<longrightarrow> articles (run env cs st) i = articles st i)"
proof (induction cs arbitrary: st)
  case Nil
  then show ?case by simp
next
  case (Cons c cs)
  show ?case
  proof (cases "dispatch env c st")
    case (Inl e)
    then show ?thesis using Cons.IH [of st] by (simp add: transact_def)
  next
    case (Inr st')
    from dispatch_articles [OF Inr] Cons.IH [of st'] show ?thesis
      using Inr by (auto simp: transact_def)
  qed
qed

lemma ids_sorted:
  assumes "map unat (ids :: uint256 list) = [1..<Suc n]"
  shows "sorted_wrt (<) ids \<and> distinct ids \<and> 0 \<notin> set ids"
proof -
  have "sorted_wrt (<) (map unat ids)" unfolding assms by (rule sorted_wrt_upt)
  moreover have "(\<lambda>x y. unat x < unat y) = ((<) :: uint256 \<Rightarrow> uint256 \<Rightarrow> bool)"
    by (intro ext) (simp add: word_less_nat_alt)
  ultimately have s: "sorted_wrt (<) ids" by (simp add: sorted_wrt_map)
  have "distinct (map unat ids)" unfolding assms by (rule distinct_upt)
  then have d: "distinct ids" by (simp add: distinct_map)
  have "0 \<notin> set (map unat ids)" unfolding assms by simp
  then have "0 \<notin> set ids" by force
  with s d show ?thesis by simp
qed

lemma dispatch_sentinel:
  assumes inv: "\<not> isAnalyzed (analyses st 0)"
    and run: "dispatch env c st = Inr st'"
  shows "\<not> isAnalyzed (analyses st' 0)"
proof (cases c)
  case (SubmitEncryptedArticle sender now c s k)
  with run inv show ?thesis
    by (auto simp: submitEncryptedArticle_def onlyAnalyst_def split: if_splits sum.splits)
next
  case (AnalyzeBias sender requestId cleartexts "proof")
  with run have r: "analyzeBias env sender requestId cleartexts proof st = Inr st'" by simp
  from analyzeBias_Inr(1) [OF r] have "0 \<noteq> requestToArticleId st requestId" by simp
  from analyzeBias_Inr(9) [OF r this] inv show ?thesis by simp
qed (use inv run in \<open>auto simp: authorizeAnalyst_def requestBiasAnalysis_def
        requestBiasCountDecryption_def decryptBiasCount_def onlyAnalyst_def Let_def
        split: if_splits option.splits sum.splits\<close>)

lemma run_sentinel:
  "\<not> isAnalyzed (analyses st 0) \<Longrightarrow> \<not> isAnalyzed (analyses (run env cs st) 0)"
proof (induction cs arbitrary: st)
  case Nil
  then show ?case by simp
next
  case (Cons c cs)
  show ?case
  proof (cases "dispatch env c st")
    case (Inl e)
    then show ?thesis using Cons.IH [OF Cons.prems] by (simp add: transact_def)
  next
    case (Inr st')
    from Cons.IH [OF dispatch_sentinel [OF Cons.prems Inr]] show ?thesis
      using Inr by (simp add: transact_def)
  qed
qed

lemma dispatch_analyzed_kept:
  assumes inv: "isAnalyzed (analyses st aid) \<and> aid \<le> articleCount st"
    and run: "dispatch env c st = Inr st'"
  shows "isAnalyzed (analyses st' aid) \<and> aid \<le> articleCount st'"
proof (cases c)
  case (SubmitEncryptedArticle sender now c s k)
  with run obtain newId where n: "checked_add (articleCount st) 1 = Inr newId"
    and e: "analyses st' = (analyses st)(newId :=
              \<lparr>biasScore = [], comparisonResult = [], mediaOutlet = [], isAnalyzed = False\<rparr>)"
    and a: "articleCount st' = newId"
    by (auto simp: submitEncryptedArticle_def onlyAnalyst_def split: if_splits sum.splits)
  from checked_add_one [OF n] have "unat newId = Suc (unat (articleCount st))" by simp
  then have "articleCount st < newId" by (simp add: word_less_nat_alt)
  with inv have "aid < newId" by (blast intro: le_less_trans)
  then show ?thesis using inv e a by auto
next
  case (AnalyzeBias sender requestId cleartexts "proof")
  with run have r: "analyzeBias env sender requestId cleartexts proof st = Inr st'" by simp
  show ?thesis
  proof (cases "aid = requestToArticleId st requestId")
    case True
    then show ?thesis using analyzeBias_Inr(4,5) [OF r] inv by simp
  next
    case False
    from analyzeBias_Inr(9) [OF r False] analyzeBias_Inr(5) [OF r] inv
    show ?thesis by simp
  qed
qed (use inv run in \<open>auto simp: authorizeAnalyst_def requestBiasAnalysis_def
        requestBiasCountDecryption_def decryptBiasCount_def onlyAnalyst_def Let_def
        split: if_splits option.splits sum.splits\<close>)

lemma run_analyzed_kept:
  "isAnalyzed (analyses st aid) \<and> aid \<le> articleCount st \<Longrightarrow>
   isAnalyzed (analyses (run env cs st) aid) \<and> aid \<le> articleCount (run env cs st)"
proof (induction cs arbitrary: st)
  case Nil
  then show ?case by simp
next
  case (Cons c cs)
  show ?case
  proof (cases "dispatch env c st")
    case (Inl e)
    then show ?thesis using Cons.IH [OF Cons.prems] by (simp add: transact_def)
  next
    case (Inr st')
    from Cons.IH [OF dispatch_analyzed_kept [OF Cons.prems Inr]] show ?thesis
      using Inr by (simp add: transact_def)
  qed
qed

lemma dispatch_request_kept:
  assumes "issued c \<noteq> Some r"
    and run: "dispatch env c st = Inr st'"
  shows "requestToArticleId st' r = requestToArticleId st r"
proof (cases c)
  case (AnalyzeBias sender requestId cleartexts "proof")
  with run have "analyzeBias env sender requestId cleartexts proof st = Inr st'" by simp
  from analyzeBias_Inr(3) [OF this] show ?thesis by simp
qed (use assms in \<open>auto simp: authorizeAnalyst_def submitEncryptedArticle_def
        requestBiasAnalysis_def requestBiasCountDecryption_def decryptBiasCount_def
        onlyAnalyst_def Let_def
        split: if_splits option.splits sum.splits\<close>)

lemma run_request_kept:
  "\<forall>c \<in> set cs. issued c \<noteq> Some r \<Longrightarrow>
   requestToArticleId (run env cs st) r = requestToArticleId st r"
proof (induction cs arbitrary: st)
  case Nil
  then show ?case by simp
next
  case (Cons c cs)
  then have c: "issued c \<noteq> Some r" and cs: "\<forall>c \<in> set cs. issued c \<noteq> Some r"
    by simp_all
  show ?case
  proof (cases "dispatch env c st")
    case (Inl e)
    then show ?thesis using Cons.IH [OF cs, of st] by (simp add: transact_def)
  next
    case (Inr st')
    from Cons.IH [OF cs, of st'] dispatch_request_kept [OF c Inr] show ?thesis
      using Inr by (simp add: transact_def)
  qed
qed

section \<open>Replay and duplicate delivery\<close>

text \<open>
  Claim C1, as the specification states it, does not hold: the first delivery of a
  callback removes the request identifier from the correlator and a second delivery of
  the same \<open>(requestId, cleartexts, proof)\<close> fails with \<open>InvalidRequest\<close>. In the concrete
  deployment the first delivery for request 7 succeeds, identifier 7 still resolves to
  article 1 afterwards, and the second delivery fails with \<open>AlreadyAnalyzed\<close>.
\<close>

theorem replay_invalid_request_counterexample:
  "analyzeBias demo_fhe 9 7 [90, 90, 7] [1] requested = Inr analyzed
   \<and> requestToArticleId analyzed 7 = 1
   \<and> analyzeBias demo_fhe 9 7 [90, 90, 7] [1] analyzed = Inl AlreadyAnalyzed
   \<and> analyzeBias demo_fhe 9 7 [90, 90, 7] [1] analyzed \<noteq> Inl InvalidRequest"
  by (simp add: first_delivery_analyzed)
     (simp add: analyzed_eq requested_eq analyzeBias_def)

text \<open>
  Claim C1, amended: let \<open>analyzeBias\<close> be delivered twice with the same
  \<open>(requestId, cleartexts, proof)\<close>, the first delivery succeeding for an article that a
  submission has assigned (its id is at most \<open>articleCount\<close>), with any sequence of calls
  between the two deliveries in which the decryption service does not hand out
  \<open>requestId\<close> again. Then the first delivery and the calls in between leave the
  request-id mapping in place, and the second delivery, whoever sends it and whatever
  the external services answer then, fails with \<open>AlreadyAnalyzed\<close>, the storage being
  unchanged by the second delivery.
\<close>

theorem replay_already_analyzed:
  assumes "analyzeBias env sender requestId cleartexts proof st = Inr st1"
    and "requestToArticleId st requestId \<le> articleCount st"
    and "Some requestId \<notin> set (map issued between)"
    and "st2 = run env2 between st1"
  shows "requestToArticleId st1 requestId = requestToArticleId st requestId
       \<and> requestToArticleId st2 requestId = requestToArticleId st requestId
       \<and> requestToArticleId st2 requestId \<noteq> 0
       \<and> analyzeBias env3 sender3 requestId cleartexts proof st2 = Inl AlreadyAnalyzed
       \<and> transact (analyzeBias env3 sender3 requestId cleartexts proof) st2
           = (Some AlreadyAnalyzed, st2)"
proof -
  note f = analyzeBias_Inr [OF assms(1)]
  have r1: "requestToArticleId st1 requestId = requestToArticleId st requestId"
    using f(3) by simp
  have "\<forall>c \<in> set between. issued c \<noteq> Some requestId"
    using assms(3) by (metis image_eqI list.set_map)
  from run_request_kept [OF this, of env2 st1]
  have r2: "requestToArticleId st2 requestId = requestToArticleId st requestId"
    unfolding assms(4) using r1 by simp
  have "isAnalyzed (analyses st1 (requestToArticleId st requestId))
      \<and> requestToArticleId st requestId \<le> articleCount st1"
    using f(4,5) assms(2) by simp
  from run_analyzed_kept [OF this, of env2 between]
  have a: "isAnalyzed (analyses st2 (requestToArticleId st2 requestId))"
    by (simp add: assms(4) [symmetric] r2)
  have n: "requestToArticleId st2 requestId \<noteq> 0" using f(1) r2 by simp
  have "analyzeBias env3 sender3 requestId cleartexts proof st2 = Inl AlreadyAnalyzed"
    using n a by (rule analyzeBias_analyzed)
  then show ?thesis using r1 r2 n by (simp add: transact_def)
qed

theorem replay_already_analyzed_witness:
  "analyzeBias demo_fhe 9 7 [90, 90, 7] [1] requested = Inr analyzed
   \<and> requestToArticleId requested 7 \<le> articleCount requested
   \<and> Some 7 \<notin> set (map issued [SubmitEncryptedArticle 1 1002 21 23 25,
                   RequestBiasAnalysis 1 (Some 8) 2, AnalyzeBias 9 8 [10, 10, 3] [1]])
   \<and> requestToArticleId analyzed 7 = 1
   \<and> requestToArticleId (run demo_fhe [SubmitEncryptedArticle 1 1002 21 23 25,
         RequestBiasAnalysis 1 (Some 8) 2, AnalyzeBias 9 8 [10, 10, 3] [1]] analyzed) 7 = 1
   \<and> analyzeBias demo_fhe 9 7 [90, 90, 7] [1]
        (run demo_fhe [SubmitEncryptedArticle 1 1002 21 23 25,
           RequestBiasAnalysis 1 (Some 8) 2, AnalyzeBias 9 8 [10, 10, 3] [1]] analyzed)
        = Inl AlreadyAnalyzed
   \<and> analyzeBias demo_fhe 9 7 [90, 90, 7] [1] analyzed = Inl AlreadyAnalyzed"
proof -
  have r: "requestToArticleId requested 7 = 1" by (simp add: requested_eq)
  have a: "requestToArticleId requested 7 \<le> articleCount requested"
    by (simp add: requested_eq submitted_eq)
  have b: "Some 7 \<notin> set (map issued [SubmitEncryptedArticle 1 1002 21 23 25,
                   RequestBiasAnalysis 1 (Some 8) 2, AnalyzeBias 9 8 [10, 10, 3] [1]])"
    by simp
  have e: "Some (7::uint256) \<notin> set (map issued [])" by simp
  have z: "analyzed = run demo_fhe [] analyzed" by simp
  from replay_already_analyzed [OF first_delivery_analyzed a b refl, of demo_fhe demo_fhe 9]
    replay_already_analyzed [OF first_delivery_analyzed a e z, of demo_fhe 9]
    r a b first_delivery_analyzed
  show ?thesis by simp
qed

text \<open>
  Claim C2: in every storage reached from deployment, for every article whose
  \<open>isAnalyzed\<close> flag is already true, a further \<open>analyzeBias\<close> routed to that article
  fails with \<open>AlreadyAnalyzed\<close>, and the failed attempt leaves the storage, and with it
  the \<open>BiasAnalysis\<close> of the first commit (\<open>biasScore\<close>, \<open>comparisonResult\<close>,
  \<open>mediaOutlet\<close>, \<open>isAnalyzed\<close>), as it was.
\<close>

theorem duplicate_analysis_rejected:
  assumes "st = run env cs (constructor deployer)"
    and "requestToArticleId st requestId = aid"
    and "isAnalyzed (analyses st aid)"
  shows "analyzeBias env' sender requestId cleartexts proof st = Inl AlreadyAnalyzed
       \<and> transact (analyzeBias env' sender requestId cleartexts proof) st
           = (Some AlreadyAnalyzed, st)
       \<and> analyses (snd (transact (analyzeBias env' sender requestId cleartexts proof) st)) aid
           = analyses st aid"
proof -
  have "\<not> isAnalyzed (analyses (constructor deployer) 0)"
    by (simp add: constructor_def emptyAnalysis_def)
  then have "\<not> isAnalyzed (analyses st 0)"
    unfolding assms(1) by (rule run_sentinel)
  with assms(3) have "aid \<noteq> 0" by auto
  with assms(2,3)
  have "analyzeBias env' sender requestId cleartexts proof st = Inl AlreadyAnalyzed"
    by (intro analyzeBias_analyzed) simp_all
  then show ?thesis by (simp add: transact_def)
qed

theorem duplicate_analysis_rejected_witness:
  "analyzed = run demo_fhe [SubmitEncryptedArticle 1 1000 11 13 15,
       RequestBiasAnalysis 1 (Some 7) 1, AnalyzeBias 9 7 [90, 90, 7] [1]] (constructor 1)
   \<and> requestToArticleId analyzed 7 = 1
   \<and> isAnalyzed (analyses analyzed 1)
   \<and> analyzeBias demo_fhe 1 7 [10, 10, 3] [1] analyzed = Inl AlreadyAnalyzed
   \<and> biasScore (analyses (snd (transact (analyzeBias demo_fhe 1 7 [10, 10, 3] [1])
        analyzed)) 1) = ''HighlyBiased''"
proof -
  have r: "requestToArticleId analyzed 7 = 1"
    by (simp add: analyzed_eq requested_eq)
  have a: "isAnalyzed (analyses analyzed 1)"
    by (simp add: analyzed_eq)
  have b: "biasScore (analyses analyzed 1) = ''HighlyBiased''"
    by (simp add: analyzed_eq)
  show ?thesis
    using duplicate_analysis_rejected [OF analyzed_run r a, of demo_fhe 1 "[10, 10, 3]" "[1]"]
      analyzed_run r a b
    by simp
qed

section \<open>Article identifiers that were never assigned\<close>

text \<open>
  Claim C3, as the specification states it, does not hold: for an article id never
  assigned by a submission, \<open>requestBiasAnalysis\<close> and \<open>getBiasAnalysis\<close> fail with
  \<open>NotFound\<close>. Straight after deployment no id has been assigned, yet the query for id 5
  returns a value, the all-default analysis; and the deployer's request for id 5, which
  the decryption service refuses, fails with that refusal and not with \<open>NotFound\<close>.
\<close>

theorem unknown_id_not_found_counterexample:
  "articleCount (constructor 1) = 0
   \<and> getBiasAnalysis (constructor 1) 5 = Inr ([], [], [], False)
   \<and> getBiasAnalysis (constructor 1) 5 \<noteq> Inl NotFound
   \<and> requestBiasAnalysis 1 None 5 (constructor 1) = Inl DecryptionRequestRefused
   \<and> requestBiasAnalysis 1 None 5 (constructor 1) \<noteq> Inl NotFound"
  by (simp add: requestBiasAnalysis_def getBiasAnalysis_def onlyAnalyst_def
      constructor_def emptyAnalysis_def)

text \<open>
  Claim C3, amended: the operations that take an article id make no test whether the id
  was ever assigned, and none of them fails with \<open>NotFound\<close>. For every id, assigned or
  not, \<open>getBiasAnalysis\<close> returns the four fields stored under the id, which are the
  defaults (empty strings and \<open>false\<close>) for every id of a freshly deployed contract; and
  \<open>requestBiasAnalysis\<close> fails with \<open>Unauthorized\<close> for an unauthorized caller, else with
  \<open>AlreadyAnalyzed\<close> when the \<open>isAnalyzed\<close> flag stored under the id is set, else with the
  refusal of the decryption service when the service does not accept the request; it
  registers the request only when the service accepts it.
\<close>

theorem unknown_id_no_not_found:
  "requestBiasAnalysis sender answer aid st \<noteq> Inl NotFound
   \<and> (\<not> authorizedAnalysts st sender \<longrightarrow>
        requestBiasAnalysis sender answer aid st = Inl Unauthorized)
   \<and> (authorizedAnalysts st sender \<and> isAnalyzed (analyses st aid) \<longrightarrow>
        requestBiasAnalysis sender answer aid st = Inl AlreadyAnalyzed)
   \<and> (authorizedAnalysts st sender \<and> \<not> isAnalyzed (analyses st aid) \<longrightarrow>
        requestBiasAnalysis sender None aid st = Inl DecryptionRequestRefused)
   \<and> ((\<exists>st'. requestBiasAnalysis sender answer aid st = Inr st') \<longrightarrow>
        answer \<noteq> None \<and> authorizedAnalysts st sender \<and> \<not> isAnalyzed (analyses st aid))
   \<and> getBiasAnalysis st aid
       = Inr (biasScore (analyses st aid), comparisonResult (analyses st aid),
              mediaOutlet (analyses st aid), isAnalyzed (analyses st aid))
   \<and> getBiasAnalysis st aid \<noteq> Inl NotFound
   \<and> getBiasAnalysis (constructor deployer) aid = Inr ([], [], [], False)"
  by (auto simp: requestBiasAnalysis_def getBiasAnalysis_def onlyAnalyst_def
      constructor_def emptyAnalysis_def Let_def split: option.splits)

theorem unknown_id_no_not_found_witness:
  "articleCount submitted = 1
   \<and> authorizedAnalysts submitted 1 \<and> \<not> isAnalyzed (analyses submitted 2)
   \<and> requestBiasAnalysis 1 None 2 submitted = Inl DecryptionRequestRefused
   \<and> \<not> authorizedAnalysts submitted 3
   \<and> requestBiasAnalysis 3 None 2 submitted = Inl Unauthorized
   \<and> getBiasAnalysis submitted 2 = Inr ([], [], [], False)"
proof -
  have s: "articleCount submitted = 1" "authorizedAnalysts submitted 1"
    "\<not> isAnalyzed (analyses submitted 2)" "\<not> authorizedAnalysts submitted 3"
    "analyses submitted 2 = emptyAnalysis"
    by (simp_all add: submitted_eq constructor_def emptyAnalysis_def)
  from unknown_id_no_not_found [of 1 None 2 submitted]
    unknown_id_no_not_found [of 3 None 2 submitted] s
  show ?thesis by (simp add: emptyAnalysis_def)
qed

section \<open>Requests outstanding for one article\<close>

text \<open>
  Claim C4, as the specification states it, does not hold: a \<open>requestBiasAnalysis\<close> for
  an article whose earlier request is unresolved is rejected. In the concrete deployment
  request 7 for article 1 is outstanding; a second request, which the decryption
  service accepts under identifier 8, is not rejected, and both identifiers then
  resolve to article 1.
\<close>

theorem second_request_rejected_counterexample:
  "requestToArticleId requested 7 = 1
   \<and> \<not> isAnalyzed (analyses requested 1)
   \<and> requestBiasAnalysis 1 (Some 8) 1 requested
       = Inr (requested\<lparr>requestToArticleId := (requestToArticleId requested)(8 := 1),
                        events := [ArticleSubmitted 1 1000, AnalysisRequested 1,
                                   AnalysisRequested 1]\<rparr>)
   \<and> requestToArticleId requested 8 = 0"
  by (simp add: requested_eq submitted_eq requestBiasAnalysis_def onlyAnalyst_def
      constructor_def emptyAnalysis_def)

text \<open>
  Claim C4, amended: the contract keeps no record of outstanding requests per article
  and rejects no request on that account. While the analysis of an article is not
  complete, a \<open>requestBiasAnalysis\<close> for it by an authorized analyst, made while an
  earlier request for the same article is unresolved, has the outcome that the
  decryption service decides: if the service accepts the request, the call succeeds and
  afterwards the earlier and the new request identifier both resolve to that article;
  if the service refuses it, the call fails with that refusal.
\<close>

theorem repeated_request_not_rejected:
  assumes "authorizedAnalysts st sender"
    and "\<not> isAnalyzed (analyses st aid)"
    and "aid \<noteq> 0"
    and "requestToArticleId st earlier = aid"
  shows "(\<exists>st'. requestBiasAnalysis sender (Some reqId) aid st = Inr st'
            \<and> requestToArticleId st' earlier = aid
            \<and> requestToArticleId st' reqId = aid
            \<and> analyses st' = analyses st)
       \<and> requestBiasAnalysis sender None aid st = Inl DecryptionRequestRefused"
  using assms by (simp add: requestBiasAnalysis_def onlyAnalyst_def)

theorem repeated_request_not_rejected_witness:
  "authorizedAnalysts requested 1
   \<and> \<not> isAnalyzed (analyses requested 1)
   \<and> (1::uint256) \<noteq> 0
   \<and> requestToArticleId requested 7 = 1
   \<and> (\<exists>st'. requestBiasAnalysis 1 (Some 8) 1 requested = Inr st'
       \<and> requestToArticleId st' 7 = 1
       \<and> requestToArticleId st' 8 = 1
       \<and> analyses st' = analyses requested)
   \<and> requestBiasAnalysis 1 None 1 requested = Inl DecryptionRequestRefused"
proof -
  have a: "authorizedAnalysts requested 1"
    by (simp add: requested_eq submitted_eq constructor_def)
  have b: "\<not> isAnalyzed (analyses requested 1)"
    by (simp add: requested_eq submitted_eq constructor_def emptyAnalysis_def)
  have n: "(1::uint256) \<noteq> 0" by simp
  have c: "requestToArticleId requested 7 = 1"
    by (simp add: requested_eq)
  show ?thesis
    using repeated_request_not_rejected [OF a b n c, of 8] a b c by simp
qed

section \<open>Category counters and the discovery list\<close>



section \<open>Article identifiers\<close>

text \<open>
  Claim C8: in every storage reached from deployment by any sequence of calls, the ids
  that the successful submissions were assigned, in the order of the submissions, are
  1, 2, ..., \<open>articleCount\<close>: they are strictly increasing, start at 1 and never
  include the sentinel 0, and no id is assigned twice. Whatever calls follow, the
  article stored under an id up to \<open>articleCount\<close> is never replaced.
\<close>

theorem article_ids_sequential:
  assumes "st = run env cs (constructor deployer)"
  shows "map unat (submitted_ids (events st)) = [1..<Suc (unat (articleCount st))]
       \<and> sorted_wrt (<) (submitted_ids (events st))
       \<and> distinct (submitted_ids (events st))
       \<and> 0 \<notin> set (submitted_ids (events st))
       \<and> (\<forall>i. i \<le> articleCount st \<longrightarrow> articles (run env later st) i = articles st i)"
proof -
  have "map unat (submitted_ids (events (constructor deployer)))
      = [1..<Suc (unat (articleCount (constructor deployer)))]"
    by (simp add: constructor_def)
  from run_ids [OF this, of env cs]
  have m: "map unat (submitted_ids (events st)) = [1..<Suc (unat (articleCount st))]"
    by (simp add: assms)
  from ids_sorted [OF m] m run_articles [of st env later] show ?thesis by simp
qed

theorem article_ids_sequential_witness:
  "submitted_ids (events (run demo_fhe
       [SubmitEncryptedArticle 1 1000 11 13 15, SubmitEncryptedArticle 2 1001 0 0 0,
        SubmitEncryptedArticle 1 1002 21 23 25] (constructor 1))) = [1, 2]
   \<and> articleCount submitted = 1
   \<and> (1::uint256) \<le> articleCount submitted
   \<and> articles (run demo_fhe [SubmitEncryptedArticle 1 1002 21 23 25] submitted) 1
       = \<lparr>articleId = 1, encryptedContent = 11, encryptedSentiment = 13,
          encryptedKeywords = 15, timestamp = 1000\<rparr>"
proof -
  have s: "submitted = run demo_fhe [SubmitEncryptedArticle 1 1000 11 13 15] (constructor 1)"
    by (simp add: submitted_def)
  have c: "articleCount submitted = 1" by (simp add: submitted_eq)
  have a: "articles submitted 1 = \<lparr>articleId = 1, encryptedContent = 11,
      encryptedSentiment = 13, encryptedKeywords = 15, timestamp = 1000\<rparr>"
    by (simp add: submitted_eq)
  have i: "submitted_ids (events (run demo_fhe
       [SubmitEncryptedArticle 1 1000 11 13 15, SubmitEncryptedArticle 2 1001 0 0 0,
        SubmitEncryptedArticle 1 1002 21 23 25] (constructor 1))) = [1, 2]"
    by (simp add: transact_def submitEncryptedArticle_def onlyAnalyst_def
        constructor_def checked_add_def)
  from article_ids_sequential [OF s, of "[SubmitEncryptedArticle 1 1002 21 23 25]"] c
  have "articles (run demo_fhe [SubmitEncryptedArticle 1 1002 21 23 25] submitted) 1
      = articles submitted 1"
    by simp
  with a c i show ?thesis by simp
qed

section \<open>Who may deliver a callback\<close>

text \<open>
  Claim C9: \<open>analyzeBias\<close> performs no caller-authorization check: its result does not
  depend on the caller and it never fails with \<open>Unauthorized\<close>. \<open>decryptBiasCount\<close>
  fails with \<open>Unauthorized\<close> for every caller outside the authorized-analyst set,
  whatever the request identifier, the cleartexts and the proof are, before any other
  check.
\<close>

theorem callback_authorization:
  "analyzeBias env sender requestId cleartexts proof st \<noteq> Inl Unauthorized
   \<and> analyzeBias env sender requestId cleartexts proof st
       = analyzeBias env other requestId cleartexts proof st
   \<and> (\<not> authorizedAnalysts st sender \<longrightarrow>
        decryptBiasCount env sender requestId cleartexts proof st = Inl Unauthorized)"
  by (simp add: analyzeBias_not_Unauthorized decryptBiasCount_def onlyAnalyst_def)
     (simp add: analyzeBias_def)

theorem callback_authorization_witness:
  "\<not> authorizedAnalysts requested 9
   \<and> analyzeBias demo_fhe 9 7 [90, 90, 7] [1] requested = Inr analyzed
   \<and> analyzeBias demo_fhe 9 7 [90, 90, 7] [1] requested \<noteq> Inl Unauthorized
   \<and> decryptBiasCount demo_fhe 9 7 [1] [1] requested = Inl Unauthorized"
proof -
  have u: "\<not> authorizedAnalysts requested 9"
    by (simp add: requested_eq submitted_eq constructor_def)
  from callback_authorization [of demo_fhe 9 7 "[1]" "[1]" requested] u
  have "decryptBiasCount demo_fhe 9 7 [1] [1] requested = Inl Unauthorized" by simp
  with u callback_authorization [of demo_fhe 9 7 "[90, 90, 7]" "[1]" requested]
    first_delivery_analyzed
  show ?thesis by simp
qed

end
